theory Spec2Isabelle
  imports Complex_Main
begin

section \<open>Values of the program\<close>

text \<open>
  The program is one Python script, \<^verbatim>\<open>app.py\<close>: two helper functions,
  \<^verbatim>\<open>analyze_image\<close> and \<^verbatim>\<open>analyze_headline\<close>, and a page body that
  calls them from two columns.

  A score is a Python float. The scores of the program are the decimal literals
  \<^verbatim>\<open>0.2\<close>, \<^verbatim>\<open>0.3\<close>, \<^verbatim>\<open>0.6\<close>, \<^verbatim>\<open>0.8\<close>, \<^verbatim>\<open>0.9\<close>, the thresholds are
  \<^verbatim>\<open>0.5\<close>, \<^verbatim>\<open>0.7\<close> and \<^verbatim>\<open>128\<close>. They are modelled by the rationals the
  literals denote, with exact arithmetic; the rounding of binary64 operations is not
  modelled. A float that is not a number (the mean of an array without elements) is
  \<open>None\<close>.
\<close>

type_synonym score = rat

type_synonym pyfloat = "rat option"

text \<open>\<^verbatim>\<open>x > y\<close> on floats: every comparison with nan is false.\<close>

definition float_gt :: "pyfloat \<Rightarrow> rat \<Rightarrow> bool" where
  "float_gt x y = (case x of None \<Rightarrow> False | Some v \<Rightarrow> v > y)"

section \<open>Strings\<close>

text \<open>
  \<^verbatim>\<open>str.lower\<close> on ASCII text: the letters \<^verbatim>\<open>A\<close> to \<^verbatim>\<open>Z\<close> (codes 65 to 90)
  move to \<^verbatim>\<open>a\<close> to \<^verbatim>\<open>z\<close>, every other ASCII character stays. The only string the
  program lowers is the ASCII placeholder title.
\<close>

definition lower_char :: "char \<Rightarrow> char" where
  "lower_char c =
     (let n = (of_char c :: nat)
      in if 65 \<le> n \<and> n \<le> 90 then char_of (n + 32) else c)"

definition lower :: "string \<Rightarrow> string" where
  "lower s = map lower_char s"

text \<open>\<^verbatim>\<open>s.startswith(w)\<close>, used by the substring test.\<close>

fun startswith :: "string \<Rightarrow> string \<Rightarrow> bool" where
  "startswith s [] = True"
| "startswith [] (c # w) = False"
| "startswith (d # s) (c # w) = (d = c \<and> startswith s w)"

text \<open>\<^verbatim>\<open>w in s\<close> on strings: \<open>w\<close> occurs in \<open>s\<close> as a contiguous piece.\<close>

fun str_in :: "string \<Rightarrow> string \<Rightarrow> bool" where
  "str_in w [] = (w = [])"
| "str_in w (d # s) = (startswith (d # s) w \<or> str_in w s)"

text \<open>\<^verbatim>\<open>any(...)\<close> over the values a generator yields, left to right.\<close>

fun any_py :: "bool list \<Rightarrow> bool" where
  "any_py [] = False"
| "any_py (b # bs) = (b \<or> any_py bs)"

section \<open>The headline scorer\<close>

text \<open>
  \<^verbatim>\<open>
  def analyze_headline(url):
      clickbait_words = ["shocking", "secret", "unbelievable", "revealed", "what happens next"]
      placeholder_title = "Shocking Secret of AI Revealed by Scientists!"
      if any(word in placeholder_title.lower() for word in clickbait_words):
          return "High Sensationalism Detected", 0.3
      else:
          return "Low Sensationalism", 0.8
  \<close>
\<close>

definition clickbait_words :: "string list" where
  "clickbait_words =
     [''shocking'', ''secret'', ''unbelievable'', ''revealed'', ''what happens next'']"

definition placeholder_title :: string where
  "placeholder_title = ''Shocking Secret of AI Revealed by Scientists!''"

definition analyze_headline :: "string \<Rightarrow> string \<times> score" where
  "analyze_headline url =
     (if any_py (map (\<lambda>word. str_in word (lower placeholder_title)) clickbait_words)
      then (''High Sensationalism Detected'', 3 / 10)
      else (''Low Sensationalism'', 8 / 10))"

section \<open>The image scorer\<close>

text \<open>
  An image is modelled by the elements of the array \<^verbatim>\<open>np.array(image)\<close> gives for
  it: the channel values of all pixels, as integers. \<^verbatim>\<open>img_array.mean()\<close> is their
  sum divided by their number; on an array without elements numpy returns nan (with a
  warning, not an exception).
\<close>

type_synonym image = "int list"

definition ndarray_mean :: "int list \<Rightarrow> pyfloat" where
  "ndarray_mean img_array =
     (if img_array = [] then None
      else Some (of_int (sum_list img_array) / of_nat (length img_array)))"

text \<open>
  \<^verbatim>\<open>random.random()\<close> reads and advances the generator of the \<^verbatim>\<open>random\<close>
  module, which is global state of the process. The state is modelled by the sequence
  of draws the generator is going to yield: a call returns the first one and leaves the
  rest.
\<close>

type_synonym rng = "nat \<Rightarrow> rat"

definition random_random :: "rng \<Rightarrow> rat \<times> rng" where
  "random_random g = (g 0, (\<lambda>n. g (Suc n)))"

text \<open>
  \<^verbatim>\<open>
  def analyze_image(image):
      img_array = np.array(image)
      if img_array.mean() > 128:
          return "Likely AI-Generated", 0.2
      else:
          if random.random() > 0.5:
              return "Likely Authentic", 0.9
          else:
              return "Analysis Inconclusive", 0.6
  \<close>
  The model takes the generator state and returns it with the result.
\<close>

definition analyze_image :: "image \<Rightarrow> rng \<Rightarrow> (string \<times> score) \<times> rng" where
  "analyze_image img g =
     (let img_array = img
      in if float_gt (ndarray_mean img_array) 128
         then ((''Likely AI-Generated'', 2 / 10), g)
         else (case random_random g of
                 (draw, g') \<Rightarrow>
                   if draw > 5 / 10
                   then ((''Likely Authentic'', 9 / 10), g')
                   else ((''Analysis Inconclusive'', 6 / 10), g')))"

section \<open>The page\<close>

text \<open>
  The page body renders by calling the functions of the \<^verbatim>\<open>st\<close> module in order.
  A run of a column is modelled by the list of these calls. The text of a banner is an
  f-string; it is kept as its pieces, a replacement field \<^verbatim>\<open>{x:.2f}\<close> as the value
  it formats. The page configuration and the styled title above the two columns are
  fixed markup and are left out.
\<close>

datatype piece = Text string | Fixed2 rat

type_synonym message = "piece list"

datatype element =
    St_header string
  | St_markdown string
  | St_file_uploader string
  | St_text_input string
  | St_image string
  | St_write message
  | St_info string
  | St_subheader string
  | St_spinner string
  | St_error message
  | St_warning message
  | St_success message

text \<open>
  The image column, lines 96 to 101:
  \<^verbatim>\<open>
  if score < 0.5:
      st.error(f"**Result:** {result} (Credibility Score: {score:.2f})")
  elif score < 0.7:
      st.warning(f"**Result:** {result} (Credibility Score: {score:.2f})")
  else:
      st.success(f"**Result:** {result} (Credibility Score: {score:.2f})")
  \<close>
\<close>

definition result_message :: "string \<Rightarrow> score \<Rightarrow> message" where
  "result_message result score =
     [Text ''**Result:** '', Text result, Text '' (Credibility Score: '', Fixed2 score,
      Text '')'']"

definition image_banner :: "string \<Rightarrow> score \<Rightarrow> element" where
  "image_banner result score =
     (if score < 5 / 10 then St_error (result_message result score)
      else if score < 7 / 10 then St_warning (result_message result score)
      else St_success (result_message result score))"

text \<open>
  \<^verbatim>\<open>
  uploaded_file = st.file_uploader("Choose an image...", type=["jpg", "jpeg", "png"])
  if uploaded_file is not None:
      image = Image.open(uploaded_file)
      st.image(image, caption="Uploaded Image", use_column_width=True)
      st.write("")
      with st.spinner('Analyzing image forensics...'):
          result, score = analyze_image(image)
          ...
  \<close>
  The uploader takes image files only, and an uploaded file is modelled by the image
  \<^verbatim>\<open>Image.open\<close> reads from it; no file is \<open>None\<close>. The variable
  \<^verbatim>\<open>image\<close> of the source is \<open>img\<close> here.
\<close>

definition image_column :: "image option \<Rightarrow> rng \<Rightarrow> element list \<times> rng" where
  "image_column uploaded_file g =
     (let top = [St_header ''1. Analyze an Image'',
                 St_markdown ''Upload a photo to check if it's authentic or AI-generated.'',
                 St_file_uploader ''Choose an image...'']
      in case uploaded_file of
           None \<Rightarrow> (top, g)
         | Some img \<Rightarrow>
             (case analyze_image img g of
                ((result, score), g') \<Rightarrow>
                  (top @ [St_image ''Uploaded Image'',
                          St_write [Text []],
                          St_spinner ''Analyzing image forensics...'',
                          image_banner result score], g')))"

text \<open>
  The URL column, lines 118 to 134:
  \<^verbatim>\<open>
  img_result, img_score = "Likely Authentic", 0.9 # Placeholder result
  headline_result, headline_score = analyze_headline(url_input)
  final_score = (img_score + headline_score) / 2
  ...
  if final_score < 0.5:
      st.error(f"**Overall Credibility: LOW** (Score: {final_score:.2f})")
  elif final_score < 0.7:
      st.warning(f"**Overall Credibility: MEDIUM** (Score: {final_score:.2f})")
  else:
      st.success(f"**Overall Credibility: HIGH** (Score: {final_score:.2f})")
  \<close>
\<close>

definition final_score :: "score \<Rightarrow> score \<Rightarrow> score" where
  "final_score img_score headline_score = (img_score + headline_score) / 2"

definition combined_banner :: "score \<Rightarrow> element" where
  "combined_banner fs =
     (if fs < 5 / 10
      then St_error [Text ''**Overall Credibility: LOW** (Score: '', Fixed2 fs, Text '')'']
      else if fs < 7 / 10
      then St_warning [Text ''**Overall Credibility: MEDIUM** (Score: '', Fixed2 fs, Text '')'']
      else St_success [Text ''**Overall Credibility: HIGH** (Score: '', Fixed2 fs, Text '')''])"

text \<open>
  \<^verbatim>\<open>if url_input:\<close> tests a string: the empty string is false, every other string
  is true. The picture of this column is a fixed address handed to the browser.
\<close>

definition url_column :: "string \<Rightarrow> element list" where
  "url_column url_input =
     (let top = [St_header ''2. Analyze a News URL'',
                 St_markdown
                   ''Paste a link to a news article to check its headline for sensationalism.'',
                 St_text_input ''Enter URL here...'']
      in if url_input \<noteq> []
         then (let (img_result, img_score) = (''Likely Authentic'', 9 / 10);
                   (headline_result, headline_score) = analyze_headline url_input;
                   fs = final_score img_score headline_score
               in top @ [St_info ''URL analysis in this demo uses a placeholder image and title.'',
                         St_image ''Image from URL (Placeholder)'',
                         St_write [Text []],
                         St_spinner ''Analyzing URL content...'',
                         St_write [Text ''---''],
                         St_subheader ''Combined Analysis:'',
                         combined_banner fs,
                         St_write [Text (CHR 0x0A # ''- **Image:** ''), Text img_result,
                                   Text (CHR 0x0A # ''- **Headline:** ''), Text headline_result,
                                   Text [CHR 0x0A]]])
         else top)"

text \<open>The colour of a banner; the other elements have none.\<close>

datatype colour = Red | Yellow | Green

fun banner_colour :: "element \<Rightarrow> colour option" where
  "banner_colour (St_error m) = Some Red"
| "banner_colour (St_warning m) = Some Yellow"
| "banner_colour (St_success m) = Some Green"
| "banner_colour e = None"

text \<open>The banners of a column, and whether it entered a spinner block.\<close>

definition banners :: "element list \<Rightarrow> element list" where
  "banners es = filter (\<lambda>e. banner_colour e \<noteq> None) es"



section \<open>Two generator states\<close>

text \<open>A generator whose first draw is 0.7 and whose later draws are 0.3.\<close>

fun high_then_low :: rng where
  "high_then_low 0 = 7 / 10"
| "high_then_low (Suc n) = 3 / 10"

text \<open>A generator whose draws are all 0.7.\<close>

definition always_high :: rng where
  "always_high n = 7 / 10"

section \<open>Facts about strings\<close>

lemma startswith_iff: "startswith s w \<longleftrightarrow> (\<exists>t. s = w @ t)"
  by (induction s w rule: startswith.induct) auto

lemma str_in_iff: "str_in w s \<longleftrightarrow> (\<exists>p t. s = p @ w @ t)"
proof (induction s)
  case Nil
  then show ?case by auto
next
  case (Cons d s)
  show ?case
  proof
    assume "str_in w (d # s)"
    then consider "startswith (d # s) w" | "str_in w s" by auto
    then show "\<exists>p t. d # s = p @ w @ t"
    proof cases
      case 1
      then obtain t where "d # s = w @ t" by (auto simp: startswith_iff)
      then have "d # s = [] @ w @ t" by simp
      then show ?thesis by blast
    next
      case 2
      then obtain p t where "s = p @ w @ t" using Cons.IH by auto
      then have "d # s = (d # p) @ w @ t" by simp
      then show ?thesis by blast
    qed
  next
    assume "\<exists>p t. d # s = p @ w @ t"
    then obtain p t where pt: "d # s = p @ w @ t" by auto
    show "str_in w (d # s)"
    proof (cases p)
      case Nil
      with pt have "startswith (d # s) w" by (auto simp: startswith_iff)
      then show ?thesis by simp
    next
      case (Cons e q)
      with pt have "s = q @ w @ t" by simp
      then have "str_in w s" using Cons.IH by auto
      then show ?thesis by simp
    qed
  qed
qed

lemma lower_placeholder_title:
  "lower placeholder_title = ''shocking secret of ai revealed by scientists!''"
  by code_simp

lemma shocking_in_title: "str_in ''shocking'' (lower placeholder_title)"
  by (simp add: lower_placeholder_title)

section \<open>Facts about the image scorer\<close>

lemma mean_gt_128_iff:
  "float_gt (ndarray_mean a) 128 \<longleftrightarrow> a \<noteq> [] \<and> 128 * int (length a) < sum_list a"
proof (cases "a = []")
  case True
  then show ?thesis by (simp add: float_gt_def ndarray_mean_def)
next
  case False
  then have pos: "(0::rat) < of_nat (length a)" by simp
  have "float_gt (ndarray_mean a) 128 \<longleftrightarrow> (128::rat) < of_int (sum_list a) / of_nat (length a)"
    using False by (simp add: float_gt_def ndarray_mean_def)
  also have "\<dots> \<longleftrightarrow> (128::rat) * of_nat (length a) < of_int (sum_list a)"
    using pos by (simp add: pos_less_divide_eq)
  also have "\<dots> \<longleftrightarrow> (of_int (128 * int (length a)) :: rat) < of_int (sum_list a)"
    by simp
  also have "\<dots> \<longleftrightarrow> 128 * int (length a) < sum_list a"
    by (simp only: of_int_less_iff)
  finally show ?thesis using False by simp
qed

lemma analyze_image_result:
  "fst (analyze_image img g) =
     (if float_gt (ndarray_mean img) 128 then (''Likely AI-Generated'', 2 / 10)
      else if g 0 > 5 / 10 then (''Likely Authentic'', 9 / 10)
      else (''Analysis Inconclusive'', 6 / 10))"
  by (simp add: analyze_image_def random_random_def)

lemma analyze_image_rng:
  "snd (analyze_image img g) =
     (if float_gt (ndarray_mean img) 128 then g else (\<lambda>n. g (Suc n)))"
  by (simp add: analyze_image_def random_random_def)

lemma analyze_headline_value:
  "analyze_headline url = (''High Sensationalism Detected'', 3 / 10)"
  by (simp add: analyze_headline_def clickbait_words_def shocking_in_title)


lemma image_column_None:
  "image_column None g =
     ([St_header ''1. Analyze an Image'',
       St_markdown ''Upload a photo to check if it's authentic or AI-generated.'',
       St_file_uploader ''Choose an image...''], g)"
  by (simp add: image_column_def)

lemma image_column_Some:
  "image_column (Some img) g =
     ([St_header ''1. Analyze an Image'',
       St_markdown ''Upload a photo to check if it's authentic or AI-generated.'',
       St_file_uploader ''Choose an image...'',
       St_image ''Uploaded Image'',
       St_write [Text []],
       St_spinner ''Analyzing image forensics...'',
       image_banner (fst (fst (analyze_image img g))) (snd (fst (analyze_image img g)))],
      snd (analyze_image img g))"
  by (simp add: image_column_def split: prod.split)

lemma url_column_empty:
  "url_column [] =
     [St_header ''2. Analyze a News URL'',
      St_markdown ''Paste a link to a news article to check its headline for sensationalism.'',
      St_text_input ''Enter URL here...'']"
  by (simp add: url_column_def)

lemma url_column_nonempty:
  "url_input \<noteq> [] \<Longrightarrow>
   url_column url_input =
     [St_header ''2. Analyze a News URL'',
      St_markdown ''Paste a link to a news article to check its headline for sensationalism.'',
      St_text_input ''Enter URL here...'',
      St_info ''URL analysis in this demo uses a placeholder image and title.'',
      St_image ''Image from URL (Placeholder)'',
      St_write [Text []],
      St_spinner ''Analyzing URL content...'',
      St_write [Text ''---''],
      St_subheader ''Combined Analysis:'',
      combined_banner (final_score (9 / 10) (snd (analyze_headline url_input))),
      St_write [Text (CHR 0x0A # ''- **Image:** ''), Text ''Likely Authentic'',
                Text (CHR 0x0A # ''- **Headline:** ''), Text (fst (analyze_headline url_input)),
                Text [CHR 0x0A]]]"
  by (simp add: url_column_def split: prod.split)

lemma combined_banner_medium:
  "combined_banner (final_score (9 / 10) (snd (analyze_headline url_input))) =
     St_warning [Text ''**Overall Credibility: MEDIUM** (Score: '', Fixed2 (6 / 10), Text '')'']"
  by (simp add: combined_banner_def final_score_def analyze_headline_value)

lemma banners_image_column:
  "banners (fst (image_column uploaded_file g)) =
     (case uploaded_file of
        None \<Rightarrow> []
      | Some img \<Rightarrow> [image_banner (fst (fst (analyze_image img g)))
                                  (snd (fst (analyze_image img g)))])"
  by (cases uploaded_file)
     (simp_all add: image_column_None image_column_Some banners_def image_banner_def)

lemma banners_url_column:
  "banners (url_column url_input) =
     (if url_input = [] then []
      else [combined_banner (final_score (9 / 10) (snd (analyze_headline url_input)))])"
  by (cases "url_input = []")
     (simp_all add: url_column_empty url_column_nonempty banners_def combined_banner_def)
section \<open>The headline scorer ignores its argument\<close>

text \<open>
  Claim C3. \<^verbatim>\<open>analyze_headline\<close> never uses the URL it is given: the keyword match
  runs against the hardcoded placeholder title, so any two URL strings get the same
  (label, score) pair.
\<close>

theorem analyze_headline_ignores_url:
  "analyze_headline u1 = analyze_headline u2"
  by (simp add: analyze_headline_def)

text \<open>
  Claim C6. For every URL string \<^verbatim>\<open>analyze_headline\<close> returns exactly
  ("High Sensationalism Detected", 0.3): the lowercased placeholder title contains a
  clickbait word (already the first one, "shocking"), and the "Low Sensationalism"
  pair is never returned.
\<close>

theorem analyze_headline_always_high:
  "analyze_headline url = (''High Sensationalism Detected'', 3 / 10)
   \<and> any_py (map (\<lambda>word. str_in word (lower placeholder_title)) clickbait_words)
   \<and> analyze_headline url \<noteq> (''Low Sensationalism'', 8 / 10)"
  by (simp add: analyze_headline_def clickbait_words_def shocking_in_title)

section \<open>The image scorer: threshold, then coin flip\<close>

text \<open>
  Claim C1. \<^verbatim>\<open>analyze_image\<close> computes the mean pixel value of the image and
  compares it to 128: above 128 the result is ("Likely AI-Generated", 0.2); otherwise
  it is ("Likely Authentic", 0.9) when the random draw exceeds 0.5 and
  ("Analysis Inconclusive", 0.6) when it does not, for every image. The mean exceeds
  128 exactly when the image has elements and their sum exceeds 128 times their number.
\<close>

theorem analyze_image_threshold_then_coin:
  "fst (analyze_image img g) =
     (if float_gt (ndarray_mean img) 128 then (''Likely AI-Generated'', 2 / 10)
      else if fst (random_random g) > 5 / 10 then (''Likely Authentic'', 9 / 10)
      else (''Analysis Inconclusive'', 6 / 10))
   \<and> (float_gt (ndarray_mean img) 128
        \<longleftrightarrow> img \<noteq> [] \<and> 128 * int (length img) < sum_list img)"
  by (simp add: analyze_image_def random_random_def mean_gt_128_iff)

section \<open>Banner bands\<close>

text \<open>
  Claim C2. In both output blocks the banner follows the documented bands: for every
  score \<open>s\<close> the red error banner is shown iff \<open>s < 0.5\<close>, the yellow warning banner
  iff \<open>0.5 \<le> s < 0.7\<close>, the green success banner iff \<open>s \<ge> 0.7\<close>. The one banner of
  the image column is chosen so from the result of \<^verbatim>\<open>analyze_image\<close>, the one banner
  of the URL column from the combined score.
\<close>

theorem banner_bands:
  "(banner_colour (image_banner result s) = Some Red \<longleftrightarrow> s < 5 / 10)
   \<and> (banner_colour (image_banner result s) = Some Yellow \<longleftrightarrow> 5 / 10 \<le> s \<and> s < 7 / 10)
   \<and> (banner_colour (image_banner result s) = Some Green \<longleftrightarrow> 7 / 10 \<le> s)
   \<and> (banner_colour (combined_banner s) = Some Red \<longleftrightarrow> s < 5 / 10)
   \<and> (banner_colour (combined_banner s) = Some Yellow \<longleftrightarrow> 5 / 10 \<le> s \<and> s < 7 / 10)
   \<and> (banner_colour (combined_banner s) = Some Green \<longleftrightarrow> 7 / 10 \<le> s)
   \<and> banners (fst (image_column (Some img) g)) =
         [image_banner (fst (fst (analyze_image img g))) (snd (fst (analyze_image img g)))]
   \<and> banners (url_column (c # url)) =
         [combined_banner (final_score (9 / 10) (snd (analyze_headline (c # url))))]"
  by (simp add: image_banner_def combined_banner_def banners_image_column
        banners_url_column)

section \<open>Randomness: the image scorer is not a pure function\<close>

text \<open>
  Claim C4, as stated, fails for \<^verbatim>\<open>analyze_image\<close>: two calls in a row on the same
  image (one black pixel, mean 0) return different pairs when the generator yields 0.7
  and then 0.3, and the first call has changed the generator.
\<close>

theorem analyze_image_two_calls_differ:
  "fst (analyze_image [0] high_then_low)
     \<noteq> fst (analyze_image [0] (snd (analyze_image [0] high_then_low)))
   \<and> fst (analyze_image [0] high_then_low) = (''Likely Authentic'', 9 / 10)
   \<and> fst (analyze_image [0] (snd (analyze_image [0] high_then_low)))
       = (''Analysis Inconclusive'', 6 / 10)
   \<and> snd (analyze_image [0] high_then_low) 0 \<noteq> high_then_low 0"
  by (simp add: analyze_image_result analyze_image_rng float_gt_def ndarray_mean_def)

text \<open>
  Claim C4, amended. \<^verbatim>\<open>analyze_headline\<close> is a pure function: it returns the same
  pair on every call. \<^verbatim>\<open>analyze_image\<close> is a function of the image and of the
  state of the random generator: two calls on the same image that see the same next
  draw return the same pair; on an image whose mean exceeds 128 the result does not
  depend on the generator and the generator is left as it was; on any other image the
  call consumes exactly one draw, which is its only effect besides returning the pair.
\<close>

theorem analyze_image_function_of_image_and_draw:
  "(g1 0 = g2 0 \<longrightarrow> fst (analyze_image img g1) = fst (analyze_image img g2))
   \<and> (float_gt (ndarray_mean img) 128 \<longrightarrow>
         fst (analyze_image img g1) = fst (analyze_image img g2)
         \<and> snd (analyze_image img g1) = g1)
   \<and> (\<not> float_gt (ndarray_mean img) 128 \<longrightarrow>
         snd (analyze_image img g1) = (\<lambda>n. g1 (Suc n)))
   \<and> (\<exists>r. \<forall>url. analyze_headline url = r)"
proof -
  have "\<exists>r. \<forall>url. analyze_headline url = r"
    using analyze_headline_value by blast
  then show ?thesis
    by (simp add: analyze_image_result analyze_image_rng)
qed

theorem analyze_image_function_of_image_and_draw_witness:
  "high_then_low 0 = always_high 0
   \<and> fst (analyze_image [0] high_then_low) = fst (analyze_image [0] always_high)
   \<and> float_gt (ndarray_mean [200, 100]) 128
   \<and> fst (analyze_image [200, 100] high_then_low) = fst (analyze_image [200, 100] always_high)
   \<and> snd (analyze_image [200, 100] high_then_low) = high_then_low
   \<and> \<not> float_gt (ndarray_mean [0]) 128
   \<and> snd (analyze_image [0] high_then_low) = (\<lambda>n. high_then_low (Suc n))"
  using analyze_image_function_of_image_and_draw [of high_then_low always_high "[0]"]
    analyze_image_function_of_image_and_draw [of high_then_low always_high "[200, 100]"]
  by (simp add: always_high_def float_gt_def ndarray_mean_def)

section \<open>Scores stay between 0 and 1\<close>

text \<open>
  Claim C5. Every score of the program is in [0,1]: the score \<^verbatim>\<open>analyze_image\<close>
  returns, for every image and generator state; the score \<^verbatim>\<open>analyze_headline\<close>
  returns, for every URL; and the combined score \<^verbatim>\<open>(img_score + headline_score) / 2\<close>,
  with the placeholder image score 0.9 the URL column uses, with the score of any
  image, and for any two scores in [0,1].
\<close>

theorem scores_in_unit_interval:
  "0 \<le> snd (fst (analyze_image img g)) \<and> snd (fst (analyze_image img g)) \<le> 1
   \<and> 0 \<le> snd (analyze_headline url) \<and> snd (analyze_headline url) \<le> 1
   \<and> 0 \<le> final_score (9 / 10) (snd (analyze_headline url))
   \<and> final_score (9 / 10) (snd (analyze_headline url)) \<le> 1
   \<and> 0 \<le> final_score (snd (fst (analyze_image img g))) (snd (analyze_headline url))
   \<and> final_score (snd (fst (analyze_image img g))) (snd (analyze_headline url)) \<le> 1
   \<and> (0 \<le> a \<and> a \<le> 1 \<and> 0 \<le> b \<and> b \<le> 1 \<longrightarrow>
         0 \<le> final_score a b \<and> final_score a b \<le> 1)"
  by (simp add: analyze_image_result analyze_headline_value final_score_def)

theorem scores_in_unit_interval_witness:
  "snd (fst (analyze_image [0] high_then_low)) = 9 / 10
   \<and> snd (analyze_headline ''https://example.com/a'') = 3 / 10
   \<and> 0 \<le> final_score (9 / 10) (3 / 10) \<and> final_score (9 / 10) (3 / 10) \<le> 1"
  using scores_in_unit_interval
    [of "[0]" high_then_low "''https://example.com/a''" "9 / 10" "3 / 10"]
  by (simp add: analyze_image_result analyze_headline_value float_gt_def ndarray_mean_def)

section \<open>The URL column always shows the warning banner\<close>

text \<open>
  Claim C7. For every non-empty URL input the combined score is
  \<open>(0.9 + 0.3) / 2 = 0.6\<close> in exact arithmetic, so the URL column renders the MEDIUM
  (yellow warning) banner and no other; the LOW and HIGH banners are never rendered.
\<close>

theorem url_column_always_medium:
  "url_input \<noteq> [] \<Longrightarrow>
     final_score (9 / 10) (snd (analyze_headline url_input)) = 6 / 10
     \<and> banners (url_column url_input) =
          [St_warning [Text ''**Overall Credibility: MEDIUM** (Score: '', Fixed2 (6 / 10),
                       Text '')'']]
     \<and> (\<forall>e \<in> set (url_column url_input).
            banner_colour e \<noteq> Some Red \<and> banner_colour e \<noteq> Some Green)"
proof -
  assume ne: "url_input \<noteq> []"
  have s: "final_score (9 / 10) (snd (analyze_headline url_input)) = 6 / 10"
    by (simp add: final_score_def analyze_headline_value)
  have b: "banners (url_column url_input) =
             [St_warning [Text ''**Overall Credibility: MEDIUM** (Score: '', Fixed2 (6 / 10),
                          Text '')'']]"
    using ne by (simp add: banners_url_column combined_banner_medium)
  have u: "\<forall>e \<in> set (url_column url_input).
             banner_colour e \<noteq> Some Red \<and> banner_colour e \<noteq> Some Green"
    using ne by (simp add: url_column_nonempty combined_banner_medium)
  from s b u show ?thesis by simp
qed

theorem url_column_always_medium_witness:
  "''https://example.com/a'' \<noteq> []
   \<and> final_score (9 / 10) (snd (analyze_headline ''https://example.com/a'')) = 6 / 10
   \<and> banners (url_column ''https://example.com/a'') =
        [St_warning [Text ''**Overall Credibility: MEDIUM** (Score: '', Fixed2 (6 / 10),
                     Text '')'']]
   \<and> St_spinner ''Analyzing URL content...'' \<in> set (url_column ''https://example.com/a'')"
proof -
  have ne: "''https://example.com/a'' \<noteq> []" by simp
  show ?thesis
    using ne url_column_always_medium [OF ne]
    by (simp add: url_column_nonempty)
qed

section \<open>The scorers have no error path\<close>



section \<open>Analysis is skipped exactly when the input is absent\<close>



section \<open>What the image scorer reads of the image\<close>

text \<open>
  Claim C10. The result of \<^verbatim>\<open>analyze_image\<close> depends on the image only through the
  truth value of "mean > 128", and on the generator only through the next draw: two
  images with the same truth value and two generator states with the same next draw
  give the same (label, score) pair; with the same generator state the generator is
  also left in the same state.
\<close>

theorem analyze_image_depends_on_comparison_and_draw:
  "float_gt (ndarray_mean img1) 128 = float_gt (ndarray_mean img2) 128 \<Longrightarrow>
     (g1 0 = g2 0 \<longrightarrow> fst (analyze_image img1 g1) = fst (analyze_image img2 g2))
     \<and> analyze_image img1 g1 = analyze_image img2 g1"
  by (simp add: analyze_image_def random_random_def)

theorem analyze_image_depends_on_comparison_and_draw_witness:
  "float_gt (ndarray_mean [0]) 128 = float_gt (ndarray_mean [100, 50, 3]) 128
   \<and> high_then_low 0 = always_high 0
   \<and> fst (analyze_image [0] high_then_low) = fst (analyze_image [100, 50, 3] always_high)
   \<and> analyze_image [0] high_then_low = analyze_image [100, 50, 3] high_then_low
   \<and> float_gt (ndarray_mean [255]) 128 = float_gt (ndarray_mean [200, 100]) 128
   \<and> analyze_image [255] high_then_low = analyze_image [200, 100] high_then_low"
proof -
  have h1: "float_gt (ndarray_mean [0]) 128 = float_gt (ndarray_mean [100, 50, 3]) 128"
    by (simp add: float_gt_def ndarray_mean_def)
  have h2: "float_gt (ndarray_mean [255]) 128 = float_gt (ndarray_mean [200, 100]) 128"
    by (simp add: float_gt_def ndarray_mean_def)
  have d: "high_then_low 0 = always_high 0"
    by (simp add: always_high_def)
  show ?thesis
    using h1 h2 d
      analyze_image_depends_on_comparison_and_draw [OF h1, of high_then_low always_high]
      analyze_image_depends_on_comparison_and_draw [OF h2, of high_then_low always_high]
    by blast
qed

end
